theory Spec2Isabelle
  imports Main "HOL-Library.Multiset"
begin

section \<open>The replication manager of pkg/controller/replication\_controller.go\<close>

text \<open>
  The development embeds the replication manager: the pod actuator
  (\<open>RealPodControl\<close>), the filter of active pods, the ordering \<open>activePods.Less\<close> used
  to choose the pods to delete, the reconciler \<open>syncReplicationController\<close> and the
  watch loop \<open>watchControllers\<close>.

  Calls to the API store and to the actuator are effects. A function of the model takes
  the answers of its collaborators as arguments (the result of a list call, the error of
  an update) and returns, next to its own result, the calls it issued, in a list.

  The goroutines one reconcile starts run in no fixed order; the model lists their calls
  by loop index. Every property below is about which calls are issued, never about their
  order in time.
\<close>

subsection \<open>Data model\<close>

type_synonym error = string

text \<open>
  Modelled from the spec: the package \<open>pkg/api\<close> is not among the sources. The spec
  gives a pod its labels, a phase among Pending, Running, Succeeded, Failed and Unknown, a
  host (possibly empty) and a readiness flag derived from its conditions; it gives a
  replication controller a desired replica count, a selector, a pod template, an observed
  replica count and a resource version. The types below carry exactly the fields the
  controller reads or writes, under the names the source uses. \<open>PodPhase\<close> is a string
  type in Go, so a phase is a string and any string is a possible phase.
\<close>

type_synonym PodPhase = string

definition PodPending :: PodPhase where "PodPending = ''Pending''"
definition PodRunning :: PodPhase where "PodRunning = ''Running''"
definition PodSucceeded :: PodPhase where "PodSucceeded = ''Succeeded''"
definition PodFailed :: PodPhase where "PodFailed = ''Failed''"
definition PodUnknown :: PodPhase where "PodUnknown = ''Unknown''"

record ObjectMeta =
  Name :: string
  GenerateName :: string
  Namespace :: string
  ResourceVersion :: string
  Labels :: "string \<rightharpoonup> string"
  Annotations :: "string \<rightharpoonup> string"

record PodSpec =
  Host :: string
  Containers :: "string list"

record PodStatus =
  Phase :: PodPhase
  Ready :: bool

record Pod = ObjectMeta +
  Spec :: PodSpec
  Status :: PodStatus

record PodTemplateSpec = ObjectMeta +
  Spec :: PodSpec

record ReplicationControllerSpec =
  Replicas :: int
  Selector :: "string \<rightharpoonup> string"
  Template :: PodTemplateSpec

record ReplicationControllerStatus =
  Replicas :: int

record ReplicationController = ObjectMeta +
  Spec :: ReplicationControllerSpec
  Status :: ReplicationControllerStatus

text \<open>
  Modelled from the spec: \<open>api.IsPodReady\<close> is not among the sources; the spec calls
  readiness a boolean derived from the pod's conditions, which the model keeps as the
  field \<open>Ready\<close> of the pod status.
\<close>

definition IsPodReady :: "Pod \<Rightarrow> bool" where
  "IsPodReady pod = Ready (Pod.Status pod)"

subsection \<open>The filter of active pods\<close>

text \<open>
  \<open>filterActivePods\<close> walks the slice by index and appends every pod whose phase is
  neither Succeeded nor Failed to the result, which starts empty.
\<close>

fun filterActivePods_loop :: "Pod list \<Rightarrow> Pod list \<Rightarrow> Pod list" where
  "filterActivePods_loop [] result = result"
| "filterActivePods_loop (p # pods) result =
     filterActivePods_loop pods
       (if PodSucceeded \<noteq> Phase (Pod.Status p) \<and> PodFailed \<noteq> Phase (Pod.Status p)
        then result @ [p] else result)"

definition filterActivePods :: "Pod list \<Rightarrow> Pod list" where
  "filterActivePods pods = filterActivePods_loop pods []"

subsection \<open>The deletion ordering\<close>

text \<open>
  The map literal \<open>m\<close> of \<open>activePods.Less\<close>, and Go's map indexing, which yields the
  zero value of the element type for a key the map does not hold.
\<close>

definition Less_m :: "PodPhase \<rightharpoonup> int" where
  "Less_m = [PodPending \<mapsto> 0, PodUnknown \<mapsto> 1, PodRunning \<mapsto> 2]"

definition mapIndex :: "('k \<rightharpoonup> int) \<Rightarrow> 'k \<Rightarrow> int" where
  "mapIndex m k = (case m k of None \<Rightarrow> 0 | Some v \<Rightarrow> v)"

definition Len :: "Pod list \<Rightarrow> nat" where
  "Len s = length s"

definition Swap :: "Pod list \<Rightarrow> nat \<Rightarrow> nat \<Rightarrow> Pod list" where
  "Swap s i j = s[i := s ! j, j := s ! i]"

text \<open>
  \<open>Less s i j\<close> is called by the sort with indices inside the slice only.
\<close>

definition Less :: "Pod list \<Rightarrow> nat \<Rightarrow> nat \<Rightarrow> bool" where
  "Less s i j =
     (if Host (Pod.Spec (s ! i)) = '''' \<and> Host (Pod.Spec (s ! j)) \<noteq> '''' then True
      else if mapIndex Less_m (Phase (Pod.Status (s ! i))) \<noteq>
              mapIndex Less_m (Phase (Pod.Status (s ! j)))
      then mapIndex Less_m (Phase (Pod.Status (s ! i))) <
           mapIndex Less_m (Phase (Pod.Status (s ! j)))
      else if \<not> IsPodReady (s ! i) \<and> IsPodReady (s ! j) then True
      else False)"

text \<open>
  \<open>sort.Sort\<close> belongs to Go's standard library. The order it leaves depends on its
  algorithm whenever \<open>Less\<close> does not settle it, so the reconciler below takes the sort
  as an argument. On a short slice (fewer than seven elements) the library sorts by
  insertion, calling \<open>Less\<close> and \<open>Swap\<close> as follows:
  \<^verbatim>\<open>for i := a + 1; i < b; i++ {
    for j := i; j > a && data.Less(j, j-1); j-- { data.Swap(j, j-1) } }\<close>
\<close>

fun insertionSort_inner :: "Pod list \<Rightarrow> nat \<Rightarrow> Pod list" where
  "insertionSort_inner s 0 = s"
| "insertionSort_inner s (Suc j) =
     (if Less s (Suc j) j then insertionSort_inner (Swap s (Suc j) j) j else s)"

definition insertionSort :: "Pod list \<Rightarrow> Pod list" where
  "insertionSort s = fold (\<lambda>i data. insertionSort_inner data i) [1..<Len s] s"

subsection \<open>The reconciler\<close>

text \<open>
  A reconcile returns an error or nil, or it panics.
\<close>

datatype Outcome = Returned "error option" | Panicked

datatype Call =
  is_createReplica: createReplica_call string ReplicationController
| is_deletePod: deletePod_call string string "error option"
| is_Update: Update_call string ReplicationController

record SyncResult =
  calls :: "Call list"
  outcome :: Outcome

text \<open>
  When a goroutine of a reconcile panics, the process goes down at a moment that depends
  on the scheduler, while the other goroutines and the reconciler itself still run. How
  far the reconciler itself got by then is one of three: it was still in the loop or in
  \<open>Wait\<close>, it had gone through the status update but not returned, or it had returned.
\<close>

datatype Progress = stopped_in_Wait | stopped_after_Update | returned

text \<open>
  The collaborators of one reconcile: the pod list call of the store, the actuator's
  \<open>deletePod\<close> and the update call of the store for replication controllers (the
  controller it returns is dropped). The actuator's \<open>createReplica\<close> returns nothing.
  A goroutine of the delete loop calls \<open>deletePod\<close> and drops the error it returns;
  the call is listed together with that error.

  The last two fields are the scheduler. They are read only when a goroutine panics:
  \<open>ran ix\<close> says whether the goroutine of loop index \<open>ix\<close> had run to its end when the
  process went down, and \<open>progress\<close> says how far the reconciler had come, provided the
  counter of the wait group let it leave \<open>Wait\<close>. The model admits every scheduler, also
  those that no run can show.
\<close>

record Env =
  PodsList :: "string \<Rightarrow> (string \<rightharpoonup> string) \<Rightarrow> error + Pod list"
  deletePod :: "string \<Rightarrow> string \<Rightarrow> error option"
  Update :: "string \<Rightarrow> ReplicationController \<Rightarrow> error option"
  ran :: "nat \<Rightarrow> bool"
  progress :: Progress

text \<open>
  Go's \<open>int\<close> has 64 bits and its arithmetic wraps around. The counter of a
  \<open>sync.WaitGroup\<close> has 32 bits: \<open>Add(delta)\<close> adds \<open>int32(delta)\<close>, the low 32 bits
  of \<open>delta\<close> read as a signed number, and panics when the counter is negative
  afterwards; \<open>Done\<close> is \<open>Add(-1)\<close>; \<open>Wait\<close> returns once the counter is zero.
\<close>

definition wrap64 :: "int \<Rightarrow> int" where
  "wrap64 x = (x + 2 ^ 63) mod 2 ^ 64 - 2 ^ 63"

definition int32 :: "int \<Rightarrow> int" where
  "int32 x = (x + 2 ^ 31) mod 2 ^ 32 - 2 ^ 31"

text \<open>
  The end of the reconciler (the comparison with \<open>Status.Replicas\<close> and the update),
  which all three branches on \<open>diff\<close> reach; \<open>issued\<close> holds the actuator calls made
  before.
\<close>

definition syncStatus ::
  "Env \<Rightarrow> ReplicationController \<Rightarrow> int \<Rightarrow> Call list \<Rightarrow> SyncResult" where
  "syncStatus env controller numActivePods issued =
     (if ReplicationControllerStatus.Replicas (ReplicationController.Status controller)
           \<noteq> numActivePods
      then
        (let controller' = controller\<lparr>ReplicationController.Status :=
               (ReplicationController.Status controller)
                 \<lparr>ReplicationControllerStatus.Replicas := numActivePods\<rparr>\<rparr>
         in case Update env (Namespace controller) controller' of
              Some err \<Rightarrow>
                \<lparr>calls = issued @ [Update_call (Namespace controller) controller'],
                 outcome = Returned (Some err)\<rparr>
            | None \<Rightarrow>
                \<lparr>calls = issued @ [Update_call (Namespace controller) controller'],
                 outcome = Returned None\<rparr>)
      else \<lparr>calls = issued, outcome = Returned None\<rparr>)"

text \<open>
  The goroutines of one loop, by loop index. A goroutine is the call it issues, or
  \<open>None\<close> when it panics before its call (the index it reads lies outside the slice);
  in both cases its deferred \<open>Done\<close> runs. \<open>goroutineCalls r ix goroutines\<close> lists the
  calls of the goroutines that ran according to \<open>r\<close>, the first goroutine having the
  index \<open>ix\<close>.
\<close>

fun goroutineCalls :: "(nat \<Rightarrow> bool) \<Rightarrow> nat \<Rightarrow> Call option list \<Rightarrow> Call list" where
  "goroutineCalls r ix [] = []"
| "goroutineCalls r ix (None # goroutines) = goroutineCalls r (Suc ix) goroutines"
| "goroutineCalls r ix (Some call # goroutines) =
     (if r ix then call # goroutineCalls r (Suc ix) goroutines
      else goroutineCalls r (Suc ix) goroutines)"

text \<open>
  What follows \<open>wait.Add\<close>, which left the counter at \<open>counter\<close>, not negative: the
  loop that starts the goroutines, \<open>wait.Wait()\<close> and the end of the reconciler.

  When the counter equals the number of goroutines and none of them panics, all of them
  run, the last \<open>Done\<close> brings the counter to zero and the reconciler goes on. Otherwise
  a goroutine panics, by its index or by a \<open>Done\<close> on a counter that is zero already,
  and the scheduler decides: the calls issued are those of the goroutines that ran, and
  the reconciler leaves \<open>Wait\<close> only if at least \<open>counter\<close> goroutines have run to
  their end.
\<close>

definition waitGroup ::
  "Env \<Rightarrow> ReplicationController \<Rightarrow> int \<Rightarrow> int \<Rightarrow> Call option list \<Rightarrow> SyncResult" where
  "waitGroup env controller numActivePods counter goroutines =
     (if counter = int (length goroutines) \<and> None \<notin> set goroutines
      then syncStatus env controller numActivePods (goroutineCalls (\<lambda>ix. True) 0 goroutines)
      else
        (let issued = goroutineCalls (ran env) 0 goroutines;
             finished = int (length (filter (ran env) [0..<length goroutines]))
         in if counter \<le> finished
            then (case progress env of
                    stopped_in_Wait \<Rightarrow> \<lparr>calls = issued, outcome = Panicked\<rparr>
                  | stopped_after_Update \<Rightarrow>
                      \<lparr>calls = calls (syncStatus env controller numActivePods issued),
                       outcome = Panicked\<rparr>
                  | returned \<Rightarrow> syncStatus env controller numActivePods issued)
            else \<lparr>calls = issued, outcome = Panicked\<rparr>))"

text \<open>
  \<open>syncReplicationController sortSort env controller\<close>. \<open>wait.Add(diff)\<close> comes before
  the loop, so when it panics no goroutine has been started.
\<close>

definition syncReplicationController ::
  "(Pod list \<Rightarrow> Pod list) \<Rightarrow> Env \<Rightarrow> ReplicationController \<Rightarrow> SyncResult" where
  "syncReplicationController sortSort env controller =
     (let s = Selector (ReplicationController.Spec controller) in
      case PodsList env (Namespace controller) s of
        Inl err \<Rightarrow> \<lparr>calls = [], outcome = Returned (Some err)\<rparr>
      | Inr items \<Rightarrow>
          (let filteredList = filterActivePods items;
               numActivePods = int (length filteredList);
               diff = wrap64 (numActivePods -
                        ReplicationControllerSpec.Replicas (ReplicationController.Spec controller))
           in
             if diff < 0 then
               (let diff' = wrap64 (diff * (- 1)) in
                if int32 diff' < 0 then \<lparr>calls = [], outcome = Panicked\<rparr>
                else waitGroup env controller numActivePods (int32 diff')
                       (map (\<lambda>i. Some (createReplica_call (Namespace controller) controller))
                          [0..<nat diff']))
             else if diff > 0 then
               (let sorted = sortSort filteredList in
                if int32 diff < 0 then \<lparr>calls = [], outcome = Panicked\<rparr>
                else waitGroup env controller numActivePods (int32 diff)
                       (map (\<lambda>ix. if ix < length sorted
                                  then Some (deletePod_call (Namespace controller)
                                         (Name (sorted ! ix))
                                         (deletePod env (Namespace controller)
                                            (Name (sorted ! ix))))
                                  else None)
                          [0..<nat diff]))
             else syncStatus env controller numActivePods []))"

subsection \<open>The pod actuator\<close>

text \<open>
  What \<open>RealPodControl.createReplica\<close> calls of other packages: the validation of a
  pod name (its boolean result), the conversion of the template's pod spec, and the
  create call of the store for pods (the pod it returns is dropped).
\<close>

record RealPodControl =
  ValidatePodName :: "string \<Rightarrow> bool \<Rightarrow> bool"
  Convert :: "PodSpec \<Rightarrow> error + PodSpec"
  Create :: "string \<Rightarrow> Pod \<Rightarrow> error option"

datatype Effect =
  HandleError string
| Create_call string Pod
| Eventf ReplicationController string string
| Errorf string
| Sleep
| synchronize_call
| syncHandler_call ReplicationController

text \<open>
  Modelled from the spec: the package \<open>pkg/labels\<close> is not among the sources. The spec
  says that the guard \<open>labels.Set(pod.Labels).AsSelector().Empty()\<close> holds when the label
  set is empty.
\<close>

definition AsSelector_Empty :: "(string \<rightharpoonup> string) \<Rightarrow> bool" where
  "AsSelector_Empty ls = (ls = Map.empty)"

text \<open>
  The two loops that copy the template's labels and annotations fill a fresh map with
  every entry of the source map.
\<close>

definition createReplica ::
  "RealPodControl \<Rightarrow> string \<Rightarrow> ReplicationController \<Rightarrow> Effect list" where
  "createReplica r namespace controller =
     (let desiredLabels =
            Map.empty ++ Labels (Template (ReplicationController.Spec controller));
          desiredAnnotations =
            Map.empty ++ Annotations (Template (ReplicationController.Spec controller));
          prefix = (if \<not> ValidatePodName r (Name controller @ ''-'') True
                    then Name controller else Name controller @ ''-'')
      in case Convert r (PodTemplateSpec.Spec (Template (ReplicationController.Spec controller))) of
           Inl err \<Rightarrow> [HandleError (''unable to convert pod template: '' @ err)]
         | Inr spec \<Rightarrow>
             (let pod = \<lparr>Name = '''', GenerateName = prefix, Namespace = '''',
                         ResourceVersion = '''', Labels = desiredLabels,
                         Annotations = desiredAnnotations, Pod.Spec = spec,
                         Pod.Status = \<lparr>Phase = '''', Ready = False\<rparr>\<rparr>
              in if AsSelector_Empty (Labels pod)
                 then [HandleError ''unable to create pod replica, no labels'']
                 else (case Create r namespace pod of
                         Some err \<Rightarrow>
                           [Create_call namespace pod,
                            Eventf controller ''failedCreate'' (''Error creating: '' @ err),
                            HandleError (''unable to create pod replica: '' @ err)]
                       | None \<Rightarrow> [Create_call namespace pod])))"

subsection \<open>The watch loop\<close>

text \<open>
  Modelled from the spec: the packages \<open>pkg/watch\<close> and \<open>pkg/api\<close> are not among the
  sources. The spec gives an event a type among Added, Modified, Deleted and Error and an
  object; the loop tells a replication controller, a status object (of which it reads the
  field \<open>Status\<close>) and any other object apart.
\<close>

datatype EventType = Added | Modified | Deleted | Error

datatype Object =
  ReplicationController_object ReplicationController
| Status_object string
| other_object

definition StatusFailure :: string where "StatusFailure = ''Failure''"

text \<open>What one \<open>select\<close> of the loop receives.\<close>

datatype Select =
  syncTime
| ResultChan EventType Object
| ResultChan_closed

record Iteration =
  resourceVersion :: string
  effects :: "Effect list"
  continue :: bool

text \<open>
  One iteration of the \<open>for\<close> loop of \<open>watchControllers\<close>: \<open>continue\<close> is false when
  the iteration returns from the function.
\<close>

definition watchIteration ::
  "(ReplicationController \<Rightarrow> error option) \<Rightarrow> string \<Rightarrow> Select \<Rightarrow> Iteration" where
  "watchIteration syncHandler rv sel =
     (case sel of
        syncTime \<Rightarrow> \<lparr>resourceVersion = rv, effects = [synchronize_call], continue = True\<rparr>
      | ResultChan_closed \<Rightarrow> \<lparr>resourceVersion = rv, effects = [], continue = False\<rparr>
      | ResultChan type object \<Rightarrow>
          if type = Error
          then \<lparr>resourceVersion = '''',
                effects = [HandleError ''error from watch during sync''], continue = True\<rparr>
          else
            (case object of
               ReplicationController_object rc \<Rightarrow>
                 \<lparr>resourceVersion = ResourceVersion rc,
                  effects = syncHandler_call rc #
                    (case syncHandler rc of
                       Some err \<Rightarrow> [HandleError (''unexpected sync error: '' @ err)]
                     | None \<Rightarrow> []),
                  continue = True\<rparr>
             | Status_object status \<Rightarrow>
                 if status = StatusFailure
                 then \<lparr>resourceVersion = '''', effects = [Errorf ''Failed to watch''],
                       continue = True\<rparr>
                 else \<lparr>resourceVersion = rv, effects = [HandleError ''unexpected object''],
                       continue = True\<rparr>
             | other_object \<Rightarrow>
                 \<lparr>resourceVersion = rv, effects = [HandleError ''unexpected object''],
                  continue = True\<rparr>))"

text \<open>
  The loop over what the two channels deliver. When nothing more arrives the loop blocks;
  the model then stops with the cursor and the effects reached.
\<close>

fun watchLoop ::
  "(ReplicationController \<Rightarrow> error option) \<Rightarrow> string \<Rightarrow> Select list \<Rightarrow> string \<times> Effect list" where
  "watchLoop syncHandler rv [] = (rv, [])"
| "watchLoop syncHandler rv (sel # sels) =
     (let it = watchIteration syncHandler rv sel in
      if continue it
      then (case watchLoop syncHandler (resourceVersion it) sels of
              (rv', es) \<Rightarrow> (rv', effects it @ es))
      else (resourceVersion it, effects it))"

text \<open>
  \<open>watchControllers\<close>: the watch call of the store fails, or it opens the channel whose
  deliveries, interleaved with the ticks of \<open>syncTime\<close>, are the list \<open>sels\<close>.
\<close>

definition watchControllers ::
  "(ReplicationController \<Rightarrow> error option) \<Rightarrow> (string \<Rightarrow> error + Select list) \<Rightarrow> string
     \<Rightarrow> string \<times> Effect list" where
  "watchControllers syncHandler Watch rv =
     (case Watch rv of
        Inl err \<Rightarrow> (rv, [HandleError (''unable to watch: '' @ err), Sleep])
      | Inr sels \<Rightarrow> watchLoop syncHandler rv sels)"

subsection \<open>Concrete populations\<close>

text \<open>
  A pod and a replication controller of the namespace \<open>default\<close> with the label
  \<open>app=frontend\<close>, a store that lists the given pods and accepts every call, and an
  actuator whose conversion is given.
\<close>

definition examplePod :: "string \<Rightarrow> string \<Rightarrow> PodPhase \<Rightarrow> bool \<Rightarrow> Pod" where
  "examplePod name host phase ready =
     \<lparr>Name = name, GenerateName = '''', Namespace = ''default'', ResourceVersion = '''',
      Labels = [''app'' \<mapsto> ''frontend''], Annotations = Map.empty,
      Pod.Spec = \<lparr>Host = host, Containers = [''nginx'']\<rparr>,
      Pod.Status = \<lparr>Phase = phase, Ready = ready\<rparr>\<rparr>"

definition exampleController ::
  "int \<Rightarrow> int \<Rightarrow> (string \<rightharpoonup> string) \<Rightarrow> ReplicationController" where
  "exampleController desired observed templateLabels =
     \<lparr>Name = ''frontend'', GenerateName = '''', Namespace = ''default'',
      ResourceVersion = ''42'', Labels = Map.empty, Annotations = Map.empty,
      ReplicationController.Spec =
        \<lparr>ReplicationControllerSpec.Replicas = desired,
         Selector = [''app'' \<mapsto> ''frontend''],
         Template =
           \<lparr>Name = '''', GenerateName = '''', Namespace = '''', ResourceVersion = '''',
            Labels = templateLabels, Annotations = Map.empty,
            PodTemplateSpec.Spec = \<lparr>Host = '''', Containers = [''nginx'']\<rparr>\<rparr>\<rparr>,
      ReplicationController.Status = \<lparr>ReplicationControllerStatus.Replicas = observed\<rparr>\<rparr>"

definition exampleEnv :: "Pod list \<Rightarrow> error option \<Rightarrow> error option \<Rightarrow> Env" where
  "exampleEnv items deleteError updateError =
     \<lparr>PodsList = (\<lambda>namespace selector. Inr items),
      deletePod = (\<lambda>namespace podID. deleteError),
      Update = (\<lambda>namespace controller. updateError),
      ran = (\<lambda>ix. True),
      progress = returned\<rparr>"

definition exampleControl :: "(PodSpec \<Rightarrow> error + PodSpec) \<Rightarrow> RealPodControl" where
  "exampleControl conversion =
     \<lparr>ValidatePodName = (\<lambda>name prefix. length name \<le> 253),
      Convert = conversion,
      Create = (\<lambda>namespace pod. None)\<rparr>"

definition assignedPending :: Pod where
  "assignedPending = examplePod ''a'' ''node1'' PodPending False"

definition unassignedRunning :: Pod where
  "unassignedRunning = examplePod ''b'' '''' PodRunning False"

definition terminalPopulation :: "Pod list" where
  "terminalPopulation =
     [examplePod ''x'' ''node1'' PodSucceeded False,
      examplePod ''y'' ''node1'' PodFailed False,
      examplePod ''z'' ''node1'' PodRunning True]"

subsection \<open>Facts about the model\<close>

lemma filterActivePods_loop_filter:
  "filterActivePods_loop pods result =
     result @ filter (\<lambda>p. Phase (Pod.Status p) \<noteq> PodSucceeded
                          \<and> Phase (Pod.Status p) \<noteq> PodFailed) pods"
  by (induction pods arbitrary: result) auto

lemma filterActivePods_filter:
  "filterActivePods pods =
     filter (\<lambda>p. Phase (Pod.Status p) \<noteq> PodSucceeded \<and> Phase (Pod.Status p) \<noteq> PodFailed) pods"
  by (simp add: filterActivePods_def filterActivePods_loop_filter)

lemma filterActivePods_idem: "filterActivePods (filterActivePods items) = filterActivePods items"
  by (simp add: filterActivePods_filter)

lemma length_filterActivePods: "length (filterActivePods items) \<le> length items"
  by (simp add: filterActivePods_filter)

lemma wrap64_id: "- (2 ^ 63) \<le> x \<Longrightarrow> x < 2 ^ 63 \<Longrightarrow> wrap64 x = x"
  by (simp add: wrap64_def)

lemma int32_id: "- (2 ^ 31) \<le> x \<Longrightarrow> x < 2 ^ 31 \<Longrightarrow> int32 x = x"
  by (simp add: int32_def)

lemma mapIndex_Less_m:
  "mapIndex Less_m p = (if p = PodRunning then 2 else if p = PodUnknown then 1 else 0)"
  by (simp add: mapIndex_def Less_m_def PodRunning_def PodUnknown_def PodPending_def)

text \<open>Insertion sort permutes the slice.\<close>

lemma mset_Swap: "i < length s \<Longrightarrow> j < length s \<Longrightarrow> mset (Swap s i j) = mset s"
  unfolding Swap_def by (simp add: mset_swap)

lemma length_Swap: "length (Swap s i j) = length s"
  by (simp add: Swap_def)

lemma insertionSort_inner_perm:
  "j < length s \<Longrightarrow>
     mset (insertionSort_inner s j) = mset s \<and> length (insertionSort_inner s j) = length s"
  by (induction s j rule: insertionSort_inner.induct) (auto simp: mset_Swap length_Swap)

lemma fold_insertionSort_inner_perm:
  "\<forall>i \<in> set js. i < length s \<Longrightarrow>
     mset (fold (\<lambda>i data. insertionSort_inner data i) js s) = mset s"
  by (induction js arbitrary: s) (auto simp: insertionSort_inner_perm)

lemma mset_insertionSort: "mset (insertionSort s) = mset s"
  by (simp add: insertionSort_def Len_def fold_insertionSort_inner_perm)

lemma sort_length: "(\<And>xs. mset (srt xs) = mset xs) \<Longrightarrow> length (srt xs) = length xs"
  by (metis size_mset)

text \<open>The end of the reconciler: the calls it adds and what it returns.\<close>

lemma calls_syncStatus:
  "calls (syncStatus env c n issued) =
     issued @ (if ReplicationControllerStatus.Replicas (ReplicationController.Status c) \<noteq> n
               then [Update_call (Namespace c)
                      (c\<lparr>ReplicationController.Status :=
                          (ReplicationController.Status c)
                            \<lparr>ReplicationControllerStatus.Replicas := n\<rparr>\<rparr>)]
               else [])"
  by (simp add: syncStatus_def Let_def split: option.split)


text \<open>The calls of the goroutines of one loop.\<close>

lemma goroutineCalls_all:
  "goroutineCalls (\<lambda>ix. True) k (map (\<lambda>i. Some (f i)) xs) = map f xs"
  by (induction xs arbitrary: k) auto

lemma set_goroutineCalls: "call \<in> set (goroutineCalls r k goroutines) \<Longrightarrow> Some call \<in> set goroutines"
  by (induction r k goroutines rule: goroutineCalls.induct) (auto split: if_splits)

lemma length_goroutineCalls: "length (goroutineCalls r k goroutines) \<le> length goroutines"
  by (induction r k goroutines rule: goroutineCalls.induct) auto

lemma filter_goroutineCalls_none:
  "(\<And>call. Some call \<in> set goroutines \<Longrightarrow> \<not> P call) \<Longrightarrow>
     filter P (goroutineCalls r k goroutines) = []"
  using set_goroutineCalls by (fastforce simp add: filter_empty_conv)

lemma length_filter_goroutineCalls:
  "length (filter P (goroutineCalls r k goroutines)) \<le> length goroutines"
  using length_filter_le[of P "goroutineCalls r k goroutines"]
    length_goroutineCalls[of r k goroutines]
  by linarith

text \<open>
  The calls of \<open>waitGroup\<close> are calls of goroutines, followed by the update of the end
  of the reconciler or by nothing.
\<close>

lemma calls_waitGroup:
  "\<exists>r u. calls (waitGroup env c n counter goroutines) = goroutineCalls r 0 goroutines @ u
     \<and> (u = [] \<or>
        (ReplicationControllerStatus.Replicas (ReplicationController.Status c) \<noteq> n
         \<and> u = [Update_call (Namespace c)
                  (c\<lparr>ReplicationController.Status :=
                       (ReplicationController.Status c)
                         \<lparr>ReplicationControllerStatus.Replicas := n\<rparr>\<rparr>)]))"
  unfolding waitGroup_def Let_def
  by (cases "progress env") (auto simp add: calls_syncStatus)



lemma mem_calls_waitGroup:
  assumes "call \<in> set (calls (waitGroup env c n counter goroutines))"
  shows "Some call \<in> set goroutines
       \<or> call = Update_call (Namespace c)
                  (c\<lparr>ReplicationController.Status :=
                       (ReplicationController.Status c)
                         \<lparr>ReplicationControllerStatus.Replicas := n\<rparr>\<rparr>)"
proof -
  from calls_waitGroup[of env c n counter goroutines] obtain r u where
    cs: "calls (waitGroup env c n counter goroutines) = goroutineCalls r 0 goroutines @ u"
    and u: "u = [] \<or> u = [Update_call (Namespace c)
                  (c\<lparr>ReplicationController.Status :=
                       (ReplicationController.Status c)
                         \<lparr>ReplicationControllerStatus.Replicas := n\<rparr>\<rparr>)]"
    by blast
  from assms cs have "call \<in> set (goroutineCalls r 0 goroutines) \<or> call \<in> set u"
    by simp
  then show ?thesis
    using u set_goroutineCalls[of call r 0 goroutines] by auto
qed

lemma count_calls_waitGroup:
  assumes "\<And>ns rc. \<not> P (Update_call ns rc)"
  shows "length (filter P (calls (waitGroup env c n counter goroutines))) \<le> length goroutines"
proof -
  from calls_waitGroup[of env c n counter goroutines] obtain r u where
    cs: "calls (waitGroup env c n counter goroutines) = goroutineCalls r 0 goroutines @ u"
    and u: "u = [] \<or> (\<exists>ns rc. u = [Update_call ns rc])"
    by blast
  from u assms have "filter P u = []" by auto
  then show ?thesis
    using length_filter_goroutineCalls[of P r 0 goroutines] by (simp add: cs)
qed

lemma no_calls_waitGroup:
  assumes "\<And>ns rc. \<not> P (Update_call ns rc)"
    and "\<And>call. Some call \<in> set goroutines \<Longrightarrow> \<not> P call"
  shows "filter P (calls (waitGroup env c n counter goroutines)) = []"
  using mem_calls_waitGroup[of _ env c n counter goroutines] assms
  by (fastforce simp add: filter_empty_conv)

lemma waitGroup_all_run:
  "counter = int (length xs) \<Longrightarrow>
     waitGroup env c n counter (map (\<lambda>i. Some (f i)) xs) = syncStatus env c n (map f xs)"
  by (auto simp add: waitGroup_def goroutineCalls_all)

text \<open>
  With a desired count that is not negative, and counts that fit Go's \<open>int\<close>, the
  subtraction does not wrap around and the reconciler reads as follows.
\<close>

lemma sync_in_range:
  assumes l: "PodsList env (Namespace c) (Selector (ReplicationController.Spec c)) = Inr items"
    and r0: "0 \<le> ReplicationControllerSpec.Replicas (ReplicationController.Spec c)"
    and r1: "ReplicationControllerSpec.Replicas (ReplicationController.Spec c) < 2 ^ 63"
    and n1: "int (length items) < 2 ^ 63"
  shows "syncReplicationController srt env c =
     (let n = int (length (filterActivePods items));
          d = n - ReplicationControllerSpec.Replicas (ReplicationController.Spec c)
      in if d < 0
         then (if int32 (- d) < 0 then \<lparr>calls = [], outcome = Panicked\<rparr>
               else waitGroup env c n (int32 (- d))
                      (map (\<lambda>i. Some (createReplica_call (Namespace c) c)) [0..<nat (- d)]))
         else if d > 0
         then (if int32 d < 0 then \<lparr>calls = [], outcome = Panicked\<rparr>
               else waitGroup env c n (int32 d)
                      (map (\<lambda>ix. if ix < length (srt (filterActivePods items))
                                 then Some (deletePod_call (Namespace c)
                                        (Name (srt (filterActivePods items) ! ix))
                                        (deletePod env (Namespace c)
                                           (Name (srt (filterActivePods items) ! ix))))
                                 else None)
                         [0..<nat d]))
         else syncStatus env c n [])"
proof -
  let ?n = "int (length (filterActivePods items))"
  let ?R = "ReplicationControllerSpec.Replicas (ReplicationController.Spec c)"
  have "?n \<le> int (length items)"
    using length_filterActivePods[of items] by simp
  with n1 have n2: "?n < 2 ^ 63" by linarith
  have n0: "0 \<le> ?n" by simp
  have w1: "wrap64 (?n - ?R) = ?n - ?R"
    using n0 n2 r0 r1 by (intro wrap64_id) linarith+
  have w2: "?n - ?R < 0 \<Longrightarrow> wrap64 ((?n - ?R) * (- 1)) = - (?n - ?R)"
    using n0 n2 r0 r1 by (simp add: wrap64_id)
  show ?thesis
    using w2 by (simp add: syncReplicationController_def l Let_def w1)
qed

text \<open>
  When, moreover, the two counts differ by less than \<open>2^31\<close> and the sort keeps the
  length of the slice, no call panics.
\<close>

lemma sync_no_panic:
  assumes l: "PodsList env (Namespace c) (Selector (ReplicationController.Spec c)) = Inr items"
    and r0: "0 \<le> ReplicationControllerSpec.Replicas (ReplicationController.Spec c)"
    and b: "\<bar>int (length (filterActivePods items))
             - ReplicationControllerSpec.Replicas (ReplicationController.Spec c)\<bar> < 2 ^ 31"
    and len: "length (srt (filterActivePods items)) = length (filterActivePods items)"
  shows "syncReplicationController srt env c =
     (let n = int (length (filterActivePods items));
          d = n - ReplicationControllerSpec.Replicas (ReplicationController.Spec c)
      in if d < 0
         then syncStatus env c n (map (\<lambda>i. createReplica_call (Namespace c) c) [0..<nat (- d)])
         else if d > 0
         then syncStatus env c n
                (map (\<lambda>ix. deletePod_call (Namespace c)
                              (Name (srt (filterActivePods items) ! ix))
                              (deletePod env (Namespace c)
                                 (Name (srt (filterActivePods items) ! ix))))
                   [0..<nat d])
         else syncStatus env c n [])"
proof -
  let ?n = "int (length (filterActivePods items))"
  let ?R = "ReplicationControllerSpec.Replicas (ReplicationController.Spec c)"
  let ?d = "?n - ?R"
  let ?sorted = "srt (filterActivePods items)"
  let ?del = "\<lambda>ix. deletePod_call (Namespace c) (Name (?sorted ! ix))
                      (deletePod env (Namespace c) (Name (?sorted ! ix)))"
  have b1: "- 2147483648 < ?d" and b2: "?d < 2147483648"
    using b by (simp_all add: abs_less_iff)
  have w1: "wrap64 ?d = ?d"
    by (rule wrap64_id) (use b1 b2 in simp_all)
  have w2: "wrap64 (?R - ?n) = ?R - ?n"
    by (rule wrap64_id) (use b1 b2 in simp_all)
  have i1: "int32 ?d = ?d"
    by (rule int32_id) (use b1 b2 in simp_all)
  have i2: "int32 (?R - ?n) = ?R - ?n"
    by (rule int32_id) (use b1 b2 in simp_all)
  have gs: "map (\<lambda>ix. if ix < length ?sorted then Some (?del ix) else None) [0..<nat ?d]
          = map (\<lambda>ix. Some (?del ix)) [0..<nat ?d]"
    using r0 len by (intro map_cong) auto
  have del: "?R < ?n \<Longrightarrow>
      waitGroup env c ?n ?d
        (map (\<lambda>ix. if ix < length ?sorted then Some (?del ix) else None) [0..<nat ?d])
      = syncStatus env c ?n (map ?del [0..<nat ?d])"
    unfolding gs by (rule waitGroup_all_run) simp
  have cre: "?n < ?R \<Longrightarrow>
      waitGroup env c ?n (?R - ?n)
        (map (\<lambda>i. Some (createReplica_call (Namespace c) c)) [0..<nat (?R - ?n)])
      = syncStatus env c ?n (map (\<lambda>i. createReplica_call (Namespace c) c) [0..<nat (?R - ?n)])"
    by (rule waitGroup_all_run) simp
  show ?thesis
    using del cre
    by (simp add: syncReplicationController_def l Let_def w1 w2 i1 i2)
qed


text \<open>Every call of a reconcile is one of three.\<close>

lemma mem_calls_sync:
  assumes l: "PodsList env (Namespace c) (Selector (ReplicationController.Spec c)) = Inr items"
    and m: "call \<in> set (calls (syncReplicationController srt env c))"
  shows "call = createReplica_call (Namespace c) c
       \<or> (\<exists>ix<length (srt (filterActivePods items)).
             call = deletePod_call (Namespace c) (Name (srt (filterActivePods items) ! ix))
                      (deletePod env (Namespace c) (Name (srt (filterActivePods items) ! ix))))
       \<or> call = Update_call (Namespace c)
                  (c\<lparr>ReplicationController.Status :=
                       (ReplicationController.Status c)
                         \<lparr>ReplicationControllerStatus.Replicas :=
                            int (length (filterActivePods items))\<rparr>\<rparr>)"
proof -
  let ?n = "int (length (filterActivePods items))"
  let ?sorted = "srt (filterActivePods items)"
  let ?upd = "Update_call (Namespace c)
                  (c\<lparr>ReplicationController.Status :=
                       (ReplicationController.Status c)
                         \<lparr>ReplicationControllerStatus.Replicas := ?n\<rparr>\<rparr>)"
  let ?del = "\<lambda>ix. deletePod_call (Namespace c) (Name (?sorted ! ix))
                      (deletePod env (Namespace c) (Name (?sorted ! ix)))"
  define good where "good x \<longleftrightarrow>
     x = createReplica_call (Namespace c) c \<or> (\<exists>ix<length ?sorted. x = ?del ix) \<or> x = ?upd"
    for x
  define allgood where "allgood xs \<longleftrightarrow> (\<forall>x \<in> set xs. good x)" for xs
  have g_nil: "allgood []"
    by (simp add: allgood_def)
  have g_status: "allgood (calls (syncStatus env c ?n []))"
    by (simp add: calls_syncStatus good_def allgood_def)
  have g_create: "allgood (calls (waitGroup env c ?n counter
        (map (\<lambda>i. Some (createReplica_call (Namespace c) c)) xs)))"
    for counter and xs :: "nat list"
    using mem_calls_waitGroup[of _ env c ?n counter
        "map (\<lambda>i. Some (createReplica_call (Namespace c) c)) xs"]
    by (auto simp add: good_def allgood_def)
  have g_delete: "allgood (calls (waitGroup env c ?n counter
        (map (\<lambda>ix. if ix < length ?sorted then Some (?del ix) else None) xs)))"
    for counter xs
    unfolding allgood_def
  proof
    fix x
    assume "x \<in> set (calls (waitGroup env c ?n counter
        (map (\<lambda>ix. if ix < length ?sorted then Some (?del ix) else None) xs)))"
    from mem_calls_waitGroup[OF this]
    show "good x"
      by (auto simp add: good_def split: if_splits)
  qed
  have "allgood (calls (syncReplicationController srt env c))"
    by (simp add: syncReplicationController_def l Let_def g_nil g_status g_create g_delete)
  with m show ?thesis
    by (simp add: good_def allgood_def)
qed

lemma calls_sync_list_failed:
  "PodsList env (Namespace c) (Selector (ReplicationController.Spec c)) = Inl err \<Longrightarrow>
     syncReplicationController srt env c = \<lparr>calls = [], outcome = Returned (Some err)\<rparr>"
  by (simp add: syncReplicationController_def)


text \<open>The pod list call is read once, at entry.\<close>

lemma syncStatus_PodsList:
  "syncStatus (env\<lparr>PodsList := f\<rparr>) c n issued = syncStatus env c n issued"
  by (simp add: syncStatus_def)

lemma waitGroup_PodsList:
  "waitGroup (env\<lparr>PodsList := f\<rparr>) c n counter goroutines = waitGroup env c n counter goroutines"
  by (simp add: waitGroup_def syncStatus_PodsList Let_def cong: if_cong Progress.case_cong)

subsection \<open>The deletion ordering on concrete pods\<close>

text \<open>
  Claim C1. A reconcile that must delete \<open>k\<close> pods deletes the first \<open>k\<close> pods of the
  sorted active list, and it never preserves an unassigned pod while it deletes an
  assigned one. The code does not keep the second part. The store lists two active pods,
  the unassigned and running pod \<open>b\<close> before the assigned and pending pod \<open>a\<close>, and the
  controller wants one replica. \<open>sort.Sort\<close> sorts a slice of two elements by insertion:
  it asks \<open>Less(1, 0)\<close>, which compares \<open>a\<close> with \<open>b\<close>; the host test does not fire,
  because \<open>a\<close> has a host, and the phase test answers true, Pending being below Running.
  The two pods are swapped and the reconcile deletes the assigned pod \<open>a\<close>, while the
  unassigned pod \<open>b\<close> stays.
\<close>

theorem sync_deletes_assigned_keeps_unassigned:
  "Host (Pod.Spec unassignedRunning) = ''''
   \<and> Host (Pod.Spec assignedPending) = ''node1''
   \<and> filterActivePods [unassignedRunning, assignedPending] = [unassignedRunning, assignedPending]
   \<and> insertionSort [unassignedRunning, assignedPending] = [assignedPending, unassignedRunning]
   \<and> calls (syncReplicationController insertionSort
         (exampleEnv [unassignedRunning, assignedPending] None None)
         (exampleController 1 2 [''app'' \<mapsto> ''frontend'']))
       = [deletePod_call ''default'' ''a'' None]"
  by (simp add: syncReplicationController_def exampleEnv_def exampleController_def
       filterActivePods_def assignedPending_def unassignedRunning_def examplePod_def
       PodPending_def PodRunning_def PodUnknown_def PodSucceeded_def PodFailed_def
       wrap64_def int32_def insertionSort_def Len_def Less_def Swap_def mapIndex_Less_m
       IsPodReady_def waitGroup_def syncStatus_def)

text \<open>
  Claim C2. The comparison is a strict weak order in which an unassigned pod precedes an
  assigned one and the phases are compared only when the host test ties. The code does not
  keep this: when the first pod is assigned and the second is not, the host test falls
  through to the phases instead of answering false. For the assigned and pending pod \<open>a\<close>
  and the unassigned and running pod \<open>b\<close>, \<open>Less\<close> puts \<open>a\<close> before \<open>b\<close> (by the
  phases) and \<open>b\<close> before \<open>a\<close> (by the hosts), so the relation is not asymmetric.
\<close>

theorem Less_both_ways:
  "Host (Pod.Spec assignedPending) \<noteq> ''''
   \<and> Host (Pod.Spec unassignedRunning) = ''''
   \<and> Less [assignedPending, unassignedRunning] 0 1
   \<and> Less [assignedPending, unassignedRunning] 1 0"
  by (simp add: Less_def assignedPending_def unassignedRunning_def examplePod_def
        mapIndex_Less_m PodPending_def PodRunning_def PodUnknown_def IsPodReady_def)

subsection \<open>Properties of the reconciler\<close>

text \<open>
  Claim C3. One reconcile issues at most \<open>max(0, desired - |active|)\<close> calls of
  \<open>createReplica\<close> and at most \<open>max(0, |active| - desired)\<close> calls of \<open>deletePod\<close>,
  and no actuator call at all when the active count equals the desired count. The desired
  count is not negative, as the data model of the spec has it, and it and the length of
  the listed slice fit Go's \<open>int\<close>. The sort and the scheduler are arbitrary: where the
  reconcile panics it issues fewer calls.
\<close>

theorem sync_quota:
  assumes l: "PodsList env (Namespace c) (Selector (ReplicationController.Spec c)) = Inr items"
    and r0: "0 \<le> ReplicationControllerSpec.Replicas (ReplicationController.Spec c)"
    and r1: "ReplicationControllerSpec.Replicas (ReplicationController.Spec c) < 2 ^ 63"
    and n1: "int (length items) < 2 ^ 63"
  shows "length (filter is_createReplica (calls (syncReplicationController srt env c)))
           \<le> nat (max 0 (ReplicationControllerSpec.Replicas (ReplicationController.Spec c)
                            - int (length (filterActivePods items))))
       \<and> length (filter is_deletePod (calls (syncReplicationController srt env c)))
           \<le> nat (max 0 (int (length (filterActivePods items))
                            - ReplicationControllerSpec.Replicas (ReplicationController.Spec c)))
       \<and> (int (length (filterActivePods items))
              = ReplicationControllerSpec.Replicas (ReplicationController.Spec c) \<longrightarrow>
          filter (\<lambda>call. is_createReplica call \<or> is_deletePod call)
            (calls (syncReplicationController srt env c)) = [])"
proof -
  let ?n = "int (length (filterActivePods items))"
  let ?R = "ReplicationControllerSpec.Replicas (ReplicationController.Spec c)"
  let ?sorted = "srt (filterActivePods items)"
  let ?creates = "map (\<lambda>i. Some (createReplica_call (Namespace c) c)) [0..<nat (?R - ?n)]"
  let ?deletes = "map (\<lambda>ix. if ix < length ?sorted
                            then Some (deletePod_call (Namespace c) (Name (?sorted ! ix))
                                   (deletePod env (Namespace c) (Name (?sorted ! ix))))
                            else None)
                    [0..<nat (?n - ?R)]"
  have cc: "length (filter is_createReplica (calls (waitGroup env c ?n counter ?creates)))
              \<le> nat (?R - ?n)" for counter
    using count_calls_waitGroup[of is_createReplica env c ?n counter ?creates] by simp
  have cd: "filter is_deletePod (calls (waitGroup env c ?n counter ?creates)) = []" for counter
    by (rule no_calls_waitGroup) auto
  have dd: "length (filter is_deletePod (calls (waitGroup env c ?n counter ?deletes)))
              \<le> nat (?n - ?R)" for counter
    using count_calls_waitGroup[of is_deletePod env c ?n counter ?deletes] by simp
  have dc: "filter is_createReplica (calls (waitGroup env c ?n counter ?deletes)) = []"
    for counter
    by (rule no_calls_waitGroup) (auto split: if_splits)
  show ?thesis
    using cc dd
    by (simp add: sync_in_range[OF l r0 r1 n1] Let_def calls_syncStatus cd dc)
qed

theorem sync_quota_witness:
  "length (filter is_createReplica (calls (syncReplicationController insertionSort
       (exampleEnv [] None None) (exampleController 3 0 [''app'' \<mapsto> ''frontend''])))) \<le> 3
   \<and> length (filter is_deletePod (calls (syncReplicationController insertionSort
       (exampleEnv [] None None) (exampleController 3 0 [''app'' \<mapsto> ''frontend''])))) \<le> 0
   \<and> int (length (filterActivePods terminalPopulation)) = 1
   \<and> filter (\<lambda>call. is_createReplica call \<or> is_deletePod call)
       (calls (syncReplicationController insertionSort
          (exampleEnv terminalPopulation None None)
          (exampleController 1 0 [''app'' \<mapsto> ''frontend'']))) = []"
proof -
  have f: "int (length (filterActivePods terminalPopulation)) = 1"
    by (simp add: filterActivePods_def terminalPopulation_def examplePod_def
          PodSucceeded_def PodFailed_def PodRunning_def)
  have l: "PodsList (exampleEnv items None None) ns sel = Inr items" for items ns sel
    by (simp add: exampleEnv_def)
  have r: "ReplicationControllerSpec.Replicas
             (ReplicationController.Spec (exampleController d ob ls)) = d" for d ob ls
    by (simp add: exampleController_def)
  have up: "length (filter is_createReplica (calls (syncReplicationController insertionSort
               (exampleEnv [] None None) (exampleController 3 0 [''app'' \<mapsto> ''frontend''])))) \<le> 3
          \<and> length (filter is_deletePod (calls (syncReplicationController insertionSort
               (exampleEnv [] None None) (exampleController 3 0 [''app'' \<mapsto> ''frontend''])))) \<le> 0"
    using sync_quota[OF l, of "exampleController 3 0 [''app'' \<mapsto> ''frontend'']" "[]" insertionSort]
    by (simp add: r filterActivePods_def)
  have same: "filter (\<lambda>call. is_createReplica call \<or> is_deletePod call)
       (calls (syncReplicationController insertionSort
          (exampleEnv terminalPopulation None None)
          (exampleController 1 0 [''app'' \<mapsto> ''frontend'']))) = []"
  proof -
    have len: "int (length terminalPopulation) < 2 ^ 63"
      by (simp add: terminalPopulation_def)
    have r0: "0 \<le> ReplicationControllerSpec.Replicas (ReplicationController.Spec
                (exampleController 1 0 [''app'' \<mapsto> ''frontend'']))"
      and r1: "ReplicationControllerSpec.Replicas (ReplicationController.Spec
                (exampleController 1 0 [''app'' \<mapsto> ''frontend''])) < 2 ^ 63"
      by (simp_all add: r)
    show ?thesis
      using sync_quota[OF l r0 r1 len, of insertionSort] f unfolding r by blast
  qed
  from up f same show ?thesis by blast
qed

text \<open>
  Claim C4. \<open>filterActivePods\<close> keeps exactly the pods whose phase is neither Succeeded
  nor Failed, in their order. So a reconcile does not see the terminal pods: it does the
  same on the listed pods and on the listed pods without the terminal ones, and every
  \<open>deletePod\<close> call names a listed pod that is not terminal (for a sort that permutes
  the slice).
\<close>

theorem terminal_pods_untouched:
  "filterActivePods pods =
     filter (\<lambda>p. Phase (Pod.Status p) \<noteq> PodSucceeded \<and> Phase (Pod.Status p) \<noteq> PodFailed) pods
   \<and> syncReplicationController srt env c =
       syncReplicationController srt
         (env\<lparr>PodsList := \<lambda>namespace selector.
                  case PodsList env namespace selector of
                    Inl err \<Rightarrow> Inl err
                  | Inr items \<Rightarrow> Inr (filterActivePods items)\<rparr>) c
   \<and> ((\<forall>xs. mset (srt xs) = mset xs) \<longrightarrow>
        PodsList env (Namespace c) (Selector (ReplicationController.Spec c)) = Inr items \<longrightarrow>
        deletePod_call ns name e \<in> set (calls (syncReplicationController srt env c)) \<longrightarrow>
        (\<exists>p \<in> set items. Name p = name \<and> Phase (Pod.Status p) \<noteq> PodSucceeded
            \<and> Phase (Pod.Status p) \<noteq> PodFailed))"
proof (intro conjI impI)
  show "filterActivePods pods =
     filter (\<lambda>p. Phase (Pod.Status p) \<noteq> PodSucceeded \<and> Phase (Pod.Status p) \<noteq> PodFailed) pods"
    by (rule filterActivePods_filter)
next
  show "syncReplicationController srt env c =
       syncReplicationController srt
         (env\<lparr>PodsList := \<lambda>namespace selector.
                  case PodsList env namespace selector of
                    Inl err \<Rightarrow> Inl err
                  | Inr items \<Rightarrow> Inr (filterActivePods items)\<rparr>) c"
    by (cases "PodsList env (Namespace c) (Selector (ReplicationController.Spec c))")
       (simp_all add: syncReplicationController_def filterActivePods_idem Let_def
          waitGroup_PodsList syncStatus_PodsList cong: if_cong)
next
  assume perm: "\<forall>xs. mset (srt xs) = mset xs"
    and l: "PodsList env (Namespace c) (Selector (ReplicationController.Spec c)) = Inr items"
    and d: "deletePod_call ns name e \<in> set (calls (syncReplicationController srt env c))"
  have s: "set (srt (filterActivePods items)) = set (filterActivePods items)"
    using perm by (metis set_mset_mset)
  from mem_calls_sync[OF l d] obtain ix where ix: "ix < length (srt (filterActivePods items))"
      and nm: "name = Name (srt (filterActivePods items) ! ix)"
    by auto
  from ix have "srt (filterActivePods items) ! ix \<in> set (filterActivePods items)"
    using s nth_mem by blast
  then show "\<exists>p \<in> set items. Name p = name \<and> Phase (Pod.Status p) \<noteq> PodSucceeded
            \<and> Phase (Pod.Status p) \<noteq> PodFailed"
    using nm by (auto simp add: filterActivePods_filter)
qed

theorem terminal_pods_untouched_witness:
  "filterActivePods terminalPopulation = [examplePod ''z'' ''node1'' PodRunning True]
   \<and> deletePod_call ''default'' ''z'' None
       \<in> set (calls (syncReplicationController insertionSort
                 (exampleEnv terminalPopulation None None)
                 (exampleController 0 1 [''app'' \<mapsto> ''frontend''])))
   \<and> (\<exists>p \<in> set terminalPopulation. Name p = ''z'' \<and> Phase (Pod.Status p) \<noteq> PodSucceeded
          \<and> Phase (Pod.Status p) \<noteq> PodFailed)"
proof -
  have f: "filterActivePods terminalPopulation = [examplePod ''z'' ''node1'' PodRunning True]"
    using terminal_pods_untouched[of terminalPopulation]
    by (simp add: terminalPopulation_def examplePod_def
          PodSucceeded_def PodFailed_def PodRunning_def)
  have l: "PodsList (exampleEnv terminalPopulation None None)
             (Namespace (exampleController 0 1 [''app'' \<mapsto> ''frontend'']))
             (Selector (ReplicationController.Spec
                (exampleController 0 1 [''app'' \<mapsto> ''frontend''])))
           = Inr terminalPopulation"
    by (simp add: exampleEnv_def)
  have d: "deletePod_call ''default'' ''z'' None
       \<in> set (calls (syncReplicationController insertionSort
                 (exampleEnv terminalPopulation None None)
                 (exampleController 0 1 [''app'' \<mapsto> ''frontend''])))"
  proof -
    have r0: "0 \<le> ReplicationControllerSpec.Replicas (ReplicationController.Spec
                (exampleController 0 1 [''app'' \<mapsto> ''frontend'']))"
      by (simp add: exampleController_def)
    have b: "\<bar>int (length (filterActivePods terminalPopulation))
               - ReplicationControllerSpec.Replicas (ReplicationController.Spec
                   (exampleController 0 1 [''app'' \<mapsto> ''frontend'']))\<bar> < 2 ^ 31"
      by (simp add: f exampleController_def)
    have len: "length (insertionSort (filterActivePods terminalPopulation))
                 = length (filterActivePods terminalPopulation)"
      by (rule sort_length) (rule mset_insertionSort)
    have s: "insertionSort [examplePod ''z'' ''node1'' PodRunning True]
               = [examplePod ''z'' ''node1'' PodRunning True]"
      by (simp add: insertionSort_def Len_def)
    have n: "Name (examplePod ''z'' ''node1'' PodRunning True) = ''z''"
      and ns: "Namespace (exampleController 0 1 [''app'' \<mapsto> ''frontend'']) = ''default''"
      and rs: "ReplicationControllerSpec.Replicas (ReplicationController.Spec
                (exampleController 0 1 [''app'' \<mapsto> ''frontend''])) = 0"
      and dp: "deletePod (exampleEnv terminalPopulation None None) ''default'' ''z'' = None"
      by (simp_all add: examplePod_def exampleController_def exampleEnv_def)
    show ?thesis
      unfolding sync_no_panic[where srt = insertionSort, OF l r0 b len]
      by (simp add: f s n ns rs dp Let_def calls_syncStatus)
  qed
  have p: "\<forall>xs. mset (insertionSort xs) = mset xs"
    by (simp add: mset_insertionSort)
  have "\<exists>p \<in> set terminalPopulation. Name p = ''z'' \<and> Phase (Pod.Status p) \<noteq> PodSucceeded
          \<and> Phase (Pod.Status p) \<noteq> PodFailed"
    using terminal_pods_untouched[of terminalPopulation insertionSort
        "exampleEnv terminalPopulation None None"
        "exampleController 0 1 [''app'' \<mapsto> ''frontend'']" terminalPopulation
        "''default''" "''z''" None] p l d
    by blast
  with f d show ?thesis by blast
qed

text \<open>
  Claim C5. A reconcile issues a status update exactly when the active count observed at
  entry differs from \<open>Status.Replicas\<close>, and it writes that observed count, whatever it
  created or deleted in this pass. As the claim states it, for every reconcile, this
  fails: with no pod listed, two to the power 31 replicas desired and \<open>Status.Replicas\<close>
  at 5, the observed count 0 differs from 5, but \<open>wait.Add(diff)\<close> leaves the 32-bit
  counter of the wait group negative and panics, and the reconcile issues no call at all.
\<close>

theorem status_update_missing_when_Add_panics:
  "PodsList (exampleEnv [] None None)
       (Namespace (exampleController 2147483648 5 [''app'' \<mapsto> ''frontend'']))
       (Selector (ReplicationController.Spec
          (exampleController 2147483648 5 [''app'' \<mapsto> ''frontend''])))
     = Inr []
   \<and> ReplicationControllerStatus.Replicas (ReplicationController.Status
         (exampleController 2147483648 5 [''app'' \<mapsto> ''frontend'']))
       \<noteq> int (length (filterActivePods []))
   \<and> filter is_Update (calls (syncReplicationController insertionSort
         (exampleEnv [] None None)
         (exampleController 2147483648 5 [''app'' \<mapsto> ''frontend'']))) = []
   \<and> syncReplicationController insertionSort (exampleEnv [] None None)
         (exampleController 2147483648 5 [''app'' \<mapsto> ''frontend''])
       = \<lparr>calls = [], outcome = Panicked\<rparr>"
  by (simp add: syncReplicationController_def exampleEnv_def exampleController_def
        filterActivePods_def wrap64_def int32_def)

text \<open>
  Claim C5, amended. When the pod list call succeeded, the desired count is not negative
  and it differs from the active count by less than two to the power 31, a reconcile
  issues a status update exactly when the active count observed at entry differs from
  \<open>Status.Replicas\<close>, and it writes that observed count, whatever it created or deleted
  in this pass. The sort permutes the slice.
\<close>

theorem status_update_iff_observed_differs:
  assumes l: "PodsList env (Namespace c) (Selector (ReplicationController.Spec c)) = Inr items"
    and r0: "0 \<le> ReplicationControllerSpec.Replicas (ReplicationController.Spec c)"
    and b: "\<bar>int (length (filterActivePods items))
             - ReplicationControllerSpec.Replicas (ReplicationController.Spec c)\<bar> < 2 ^ 31"
    and perm: "\<And>xs. mset (srt xs) = mset xs"
  shows "filter is_Update (calls (syncReplicationController srt env c)) =
     (if ReplicationControllerStatus.Replicas (ReplicationController.Status c)
           \<noteq> int (length (filterActivePods items))
      then [Update_call (Namespace c)
              (c\<lparr>ReplicationController.Status :=
                   (ReplicationController.Status c)
                     \<lparr>ReplicationControllerStatus.Replicas :=
                        int (length (filterActivePods items))\<rparr>\<rparr>)]
      else [])"
  by (simp add: sync_no_panic[where srt = srt, OF l r0 b sort_length[OF perm]] Let_def calls_syncStatus
        filter_map comp_def)

theorem status_update_iff_observed_differs_witness:
  "filter is_Update (calls (syncReplicationController insertionSort
       (exampleEnv terminalPopulation None None)
       (exampleController 1 0 [''app'' \<mapsto> ''frontend''])))
     = [Update_call ''default'' (exampleController 1 1 [''app'' \<mapsto> ''frontend''])]
   \<and> filter is_Update (calls (syncReplicationController insertionSort
       (exampleEnv terminalPopulation None None)
       (exampleController 3 1 [''app'' \<mapsto> ''frontend''])))
     = []"
proof -
  have f: "int (length (filterActivePods terminalPopulation)) = 1"
    by (simp add: filterActivePods_def terminalPopulation_def examplePod_def
          PodSucceeded_def PodFailed_def PodRunning_def)
  have l: "PodsList (exampleEnv terminalPopulation None None) ns sel = Inr terminalPopulation"
    for ns sel
    by (simp add: exampleEnv_def)
  have r0: "0 \<le> ReplicationControllerSpec.Replicas (ReplicationController.Spec
              (exampleController d ob ls))" if "0 \<le> d" for d ob ls
    using that by (simp add: exampleController_def)
  have b: "\<bar>int (length (filterActivePods terminalPopulation))
            - ReplicationControllerSpec.Replicas (ReplicationController.Spec
                (exampleController d ob ls))\<bar> < 2 ^ 31"
    if "0 \<le> d" and "d \<le> 3" for d ob ls
    using that by (simp add: exampleController_def f)
  have a: "filter is_Update (calls (syncReplicationController insertionSort
       (exampleEnv terminalPopulation None None)
       (exampleController 1 0 [''app'' \<mapsto> ''frontend''])))
     = [Update_call ''default'' (exampleController 1 1 [''app'' \<mapsto> ''frontend''])]"
    using status_update_iff_observed_differs[OF l r0 b mset_insertionSort, of 1 0
        "[''app'' \<mapsto> ''frontend'']"]
    by (simp add: f) (simp add: exampleController_def)
  have b': "filter is_Update (calls (syncReplicationController insertionSort
       (exampleEnv terminalPopulation None None)
       (exampleController 3 1 [''app'' \<mapsto> ''frontend''])))
     = []"
    using status_update_iff_observed_differs[OF l r0 b mset_insertionSort, of 3 1
        "[''app'' \<mapsto> ''frontend'']"]
    by (simp add: f) (simp add: exampleController_def)
  from a b' show ?thesis by blast
qed



text \<open>
  Claim C9. The only call of a reconcile that writes a replication controller is the
  update of the store, and the controller it writes is the snapshot the reconcile
  received with nothing but \<open>Status.Replicas\<close> changed: metadata, selector, template and
  desired count are those of the snapshot. The calls of the model have no constructor that
  creates a replication controller, because the source has no such call.
\<close>

theorem update_changes_status_replicas_only:
  assumes "Update_call ns rc' \<in> set (calls (syncReplicationController srt env c))"
  shows "ns = Namespace c
     \<and> rc' = c\<lparr>ReplicationController.Status :=
                (ReplicationController.Status c)
                  \<lparr>ReplicationControllerStatus.Replicas :=
                     ReplicationControllerStatus.Replicas (ReplicationController.Status rc')\<rparr>\<rparr>
     \<and> ReplicationController.Spec rc' = ReplicationController.Spec c
     \<and> Name rc' = Name c \<and> Namespace rc' = Namespace c
     \<and> ResourceVersion rc' = ResourceVersion c
     \<and> Labels rc' = Labels c \<and> Annotations rc' = Annotations c"
proof (cases "PodsList env (Namespace c) (Selector (ReplicationController.Spec c))")
  case (Inl err)
  with assms show ?thesis by (simp add: calls_sync_list_failed)
next
  case (Inr items)
  from mem_calls_sync[OF Inr assms]
  have "Update_call ns rc' = Update_call (Namespace c)
                  (c\<lparr>ReplicationController.Status :=
                       (ReplicationController.Status c)
                         \<lparr>ReplicationControllerStatus.Replicas :=
                            int (length (filterActivePods items))\<rparr>\<rparr>)"
    by auto
  then show ?thesis by auto
qed

theorem update_changes_status_replicas_only_witness:
  "Update_call ''default'' (exampleController 1 1 [''app'' \<mapsto> ''frontend''])
     \<in> set (calls (syncReplicationController insertionSort
               (exampleEnv terminalPopulation None None)
               (exampleController 1 0 [''app'' \<mapsto> ''frontend''])))
   \<and> ReplicationController.Spec (exampleController 1 1 [''app'' \<mapsto> ''frontend''])
       = ReplicationController.Spec (exampleController 1 0 [''app'' \<mapsto> ''frontend''])
   \<and> exampleController 1 1 [''app'' \<mapsto> ''frontend'']
       = (exampleController 1 0 [''app'' \<mapsto> ''frontend''])
           \<lparr>ReplicationController.Status :=
              (ReplicationController.Status (exampleController 1 0 [''app'' \<mapsto> ''frontend'']))
                \<lparr>ReplicationControllerStatus.Replicas :=
                   ReplicationControllerStatus.Replicas (ReplicationController.Status
                     (exampleController 1 1 [''app'' \<mapsto> ''frontend'']))\<rparr>\<rparr>"
proof -
  have f: "filterActivePods terminalPopulation = [examplePod ''z'' ''node1'' PodRunning True]"
    by (simp add: filterActivePods_def terminalPopulation_def examplePod_def
          PodSucceeded_def PodFailed_def PodRunning_def)
  have l: "PodsList (exampleEnv terminalPopulation None None) ns sel = Inr terminalPopulation"
    for ns sel
    by (simp add: exampleEnv_def)
  have m: "Update_call ''default'' (exampleController 1 1 [''app'' \<mapsto> ''frontend''])
     \<in> set (calls (syncReplicationController insertionSort
               (exampleEnv terminalPopulation None None)
               (exampleController 1 0 [''app'' \<mapsto> ''frontend''])))"
    by (simp add: syncReplicationController_def l f Let_def wrap64_def calls_syncStatus)
       (simp add: exampleController_def)
  from update_changes_status_replicas_only[OF m] m show ?thesis by blast
qed

subsection \<open>Properties of the pod actuator\<close>

text \<open>
  Claim C6. \<open>createReplica\<close> creates no pod when the conversion of the template's pod
  spec fails, and none when the label set of the pod (the copy of the template's labels)
  is empty. In both cases it reports the error to \<open>util.HandleError\<close> and returns; it
  has no result through which an error could reach its caller.
\<close>

theorem createReplica_refuses:
  "(Convert r (PodTemplateSpec.Spec (Template (ReplicationController.Spec c))) = Inl err \<longrightarrow>
      createReplica r namespace c = [HandleError (''unable to convert pod template: '' @ err)])
   \<and> (Convert r (PodTemplateSpec.Spec (Template (ReplicationController.Spec c))) = Inr spec \<longrightarrow>
      Labels (Template (ReplicationController.Spec c)) = Map.empty \<longrightarrow>
      createReplica r namespace c = [HandleError ''unable to create pod replica, no labels''])
   \<and> ((\<exists>e. Convert r (PodTemplateSpec.Spec (Template (ReplicationController.Spec c))) = Inl e)
        \<or> Labels (Template (ReplicationController.Spec c)) = Map.empty \<longrightarrow>
      (\<forall>ns pod. Create_call ns pod \<notin> set (createReplica r namespace c)))"
  by (auto simp add: createReplica_def AsSelector_Empty_def Let_def split: sum.splits)

theorem createReplica_refuses_witness:
  "createReplica (exampleControl (\<lambda>spec. Inl ''no conversion'')) ''default''
      (exampleController 3 0 [''app'' \<mapsto> ''frontend''])
     = [HandleError ''unable to convert pod template: no conversion'']
   \<and> createReplica (exampleControl Inr) ''default'' (exampleController 3 0 Map.empty)
     = [HandleError ''unable to create pod replica, no labels'']
   \<and> Create_call ''default'' (examplePod ''z'' ''node1'' PodRunning True)
       \<notin> set (createReplica (exampleControl Inr) ''default'' (exampleController 3 0 Map.empty))"
proof -
  have a: "createReplica (exampleControl (\<lambda>spec. Inl ''no conversion'')) ''default''
      (exampleController 3 0 [''app'' \<mapsto> ''frontend''])
     = [HandleError ''unable to convert pod template: no conversion'']"
    using createReplica_refuses[of "exampleControl (\<lambda>spec. Inl ''no conversion'')"
        "exampleController 3 0 [''app'' \<mapsto> ''frontend'']" "''no conversion''" "''default''"]
    by (simp add: exampleControl_def)
  have b: "createReplica (exampleControl Inr) ''default'' (exampleController 3 0 Map.empty)
     = [HandleError ''unable to create pod replica, no labels'']"
    using createReplica_refuses[of "exampleControl Inr" "exampleController 3 0 Map.empty"
        _ "''default''" "PodTemplateSpec.Spec (Template (ReplicationController.Spec
             (exampleController 3 0 Map.empty)))"]
    by (simp add: exampleControl_def exampleController_def)
  have c: "Create_call ''default'' (examplePod ''z'' ''node1'' PodRunning True)
       \<notin> set (createReplica (exampleControl Inr) ''default'' (exampleController 3 0 Map.empty))"
    using createReplica_refuses[of "exampleControl Inr" "exampleController 3 0 Map.empty"
        _ "''default''"]
    by (simp add: exampleController_def)
  from a b c show ?thesis by blast
qed

subsection \<open>Properties of the watch loop\<close>

text \<open>
  Claim C7. In one iteration of the watch loop, an event of type Error, or an event whose
  object is a status with the failure status, sets the cursor to the empty string, and
  the loop goes on. An event that is no Error and carries a replication controller sets
  the cursor to the resource version of that controller. An event that is no Error and
  carries anything else leaves the cursor as it was. The loop tests the type of the event
  before it looks at the object.
\<close>

theorem watch_cursor:
  "(type = Error \<or> object = Status_object StatusFailure \<longrightarrow>
      resourceVersion (watchIteration syncHandler rv (ResultChan type object)) = ''''
      \<and> continue (watchIteration syncHandler rv (ResultChan type object)))
   \<and> (type \<noteq> Error \<longrightarrow>
      resourceVersion (watchIteration syncHandler rv
         (ResultChan type (ReplicationController_object rc))) = ResourceVersion rc
      \<and> continue (watchIteration syncHandler rv
         (ResultChan type (ReplicationController_object rc))))
   \<and> (type \<noteq> Error \<longrightarrow> (\<forall>rc. object \<noteq> ReplicationController_object rc) \<longrightarrow>
      object \<noteq> Status_object StatusFailure \<longrightarrow>
      resourceVersion (watchIteration syncHandler rv (ResultChan type object)) = rv
      \<and> continue (watchIteration syncHandler rv (ResultChan type object)))"
  by (auto simp add: watchIteration_def split: Object.splits)

theorem watch_cursor_witness:
  "resourceVersion (watchIteration (\<lambda>rc. None) ''v=42'' (ResultChan Error other_object)) = ''''
   \<and> resourceVersion (watchIteration (\<lambda>rc. None) ''v=42''
        (ResultChan Added (Status_object StatusFailure))) = ''''
   \<and> resourceVersion (watchIteration (\<lambda>rc. None) ''v=41''
        (ResultChan Deleted (ReplicationController_object
           (exampleController 0 0 [''app'' \<mapsto> ''frontend''])))) = ''42''
   \<and> resourceVersion (watchIteration (\<lambda>rc. None) ''v=42''
        (ResultChan Modified (Status_object ''Success''))) = ''v=42''
   \<and> fst (watchLoop (\<lambda>rc. None) ''v=42''
        [ResultChan Error other_object, ResultChan_closed]) = ''''"
proof -
  have a: "resourceVersion (watchIteration (\<lambda>rc. None) ''v=42'' (ResultChan Error other_object)) = ''''
      \<and> continue (watchIteration (\<lambda>rc. None) ''v=42'' (ResultChan Error other_object))"
    using watch_cursor[of Error other_object "\<lambda>rc. None" "''v=42''"] by simp
  have b: "resourceVersion (watchIteration (\<lambda>rc. None) ''v=42''
        (ResultChan Added (Status_object StatusFailure))) = ''''"
    using watch_cursor[of Added "Status_object StatusFailure" "\<lambda>rc. None" "''v=42''"] by simp
  have c: "resourceVersion (watchIteration (\<lambda>rc. None) ''v=41''
        (ResultChan Deleted (ReplicationController_object
           (exampleController 0 0 [''app'' \<mapsto> ''frontend''])))) = ''42''"
    using watch_cursor[of Deleted _ "\<lambda>rc. None" "''v=41''"
        "exampleController 0 0 [''app'' \<mapsto> ''frontend'']"]
    by (simp add: exampleController_def)
  have d: "resourceVersion (watchIteration (\<lambda>rc. None) ''v=42''
        (ResultChan Modified (Status_object ''Success''))) = ''v=42''"
    using watch_cursor[of Modified "Status_object ''Success''" "\<lambda>rc. None" "''v=42''"]
    by (simp add: StatusFailure_def)
  have e: "fst (watchLoop (\<lambda>rc. None) ''v=42''
        [ResultChan Error other_object, ResultChan_closed]) = ''''"
    using a by (simp add: Let_def watchIteration_def)
  from a b c d e show ?thesis by blast
qed

subsection \<open>The phase keys\<close>

text \<open>
  Claim C10. The map of \<open>Less\<close> holds Pending, Unknown and Running only, so the key of
  every other phase is the zero value 0, the key of Pending. For two pods whose phases are
  neither Unknown nor Running (terminal phases and unknown strings included) the phase
  test ties, and \<open>Less\<close> is decided by the host test and then by the readiness test.
  \<open>Less\<close> is defined on all pods, active or not.
\<close>

theorem phase_key_default:
  "(p \<notin> {PodPending, PodUnknown, PodRunning} \<longrightarrow> mapIndex Less_m p = 0)
   \<and> mapIndex Less_m PodPending = 0
   \<and> mapIndex Less_m PodSucceeded = 0
   \<and> mapIndex Less_m PodFailed = 0
   \<and> (Phase (Pod.Status a) \<notin> {PodUnknown, PodRunning} \<longrightarrow>
      Phase (Pod.Status b) \<notin> {PodUnknown, PodRunning} \<longrightarrow>
      mapIndex Less_m (Phase (Pod.Status a)) = mapIndex Less_m (Phase (Pod.Status b))
      \<and> Less [a, b] 0 1 =
          ((Host (Pod.Spec a) = '''' \<and> Host (Pod.Spec b) \<noteq> '''')
           \<or> (\<not> IsPodReady a \<and> IsPodReady b)))"
  by (auto simp add: Less_def mapIndex_Less_m PodPending_def PodRunning_def PodUnknown_def
        PodSucceeded_def PodFailed_def)

theorem phase_key_default_witness:
  "''Evicted'' \<notin> {PodPending, PodUnknown, PodRunning}
   \<and> mapIndex Less_m ''Evicted'' = 0
   \<and> Less [examplePod ''x'' ''node1'' PodSucceeded False,
            examplePod ''y'' ''node1'' PodPending True] 0 1
   \<and> \<not> Less [examplePod ''y'' ''node1'' PodPending True,
              examplePod ''x'' ''node1'' PodSucceeded False] 0 1"
proof -
  have n: "''Evicted'' \<notin> {PodPending, PodUnknown, PodRunning}"
    by (simp add: PodPending_def PodUnknown_def PodRunning_def)
  have k: "mapIndex Less_m ''Evicted'' = 0"
    using phase_key_default[of "''Evicted''"] n by blast
  have ph: "Phase (Pod.Status (examplePod ''x'' ''node1'' PodSucceeded False))
              \<notin> {PodUnknown, PodRunning}"
       "Phase (Pod.Status (examplePod ''y'' ''node1'' PodPending True))
              \<notin> {PodUnknown, PodRunning}"
    by (simp_all add: examplePod_def PodSucceeded_def PodPending_def PodUnknown_def
          PodRunning_def)
  have l1: "Less [examplePod ''x'' ''node1'' PodSucceeded False,
            examplePod ''y'' ''node1'' PodPending True] 0 1"
    using phase_key_default[of _ "examplePod ''x'' ''node1'' PodSucceeded False"
        "examplePod ''y'' ''node1'' PodPending True"] ph
    by (simp add: examplePod_def IsPodReady_def)
  have l2: "\<not> Less [examplePod ''y'' ''node1'' PodPending True,
              examplePod ''x'' ''node1'' PodSucceeded False] 0 1"
    using phase_key_default[of _ "examplePod ''y'' ''node1'' PodPending True"
        "examplePod ''x'' ''node1'' PodSucceeded False"] ph
    by (simp add: examplePod_def IsPodReady_def)
  from n k l1 l2 show ?thesis by blast
qed

end
